theory Spec2Isabelle
  imports Main
begin

section \<open>Byte buffers and the Node crypto primitives used by the key manager\<close>

text \<open>
  A Node \<^verbatim>\<open>Buffer\<close> is a list of bytes (a \<^typ>\<open>char\<close> is a byte); JavaScript strings (the
  data-encryption key, base64 text, JSON fields) are \<^typ>\<open>string\<close> too.  The functions of
  Node's \<^verbatim>\<open>crypto\<close> and \<^verbatim>\<open>Buffer\<close> modules that \<^verbatim>\<open>config/masterKey.js\<close> calls are not
  code of the repository; they are the fields of a record that every operation of the key
  manager takes as its first argument:
  \<^item> \<open>gcm_seal key data\<close> is \<^verbatim>\<open>createCipher('aes-256-gcm', key)\<close> followed by
    \<^verbatim>\<open>update\<close>, \<^verbatim>\<open>final\<close> and \<^verbatim>\<open>getAuthTag\<close>: the ciphertext and the tag.  The call takes
    no IV and draws no randomness (key and IV are both derived from \<open>key\<close>), so it is a
    function of the key and the data;
  \<^item> \<open>gcm_open key tag data\<close> is \<^verbatim>\<open>createDecipher('aes-256-gcm', key)\<close>, the optional
    \<^verbatim>\<open>setAuthTag\<close>, \<^verbatim>\<open>update\<close> and \<^verbatim>\<open>final\<close>; it is \<open>None\<close> when \<^verbatim>\<open>final\<close> throws;
  \<^item> \<open>utf8_enc\<close>, \<open>utf8_dec\<close>, \<open>b64_enc\<close>, \<open>b64_dec\<close> are the \<^verbatim>\<open>'utf8'\<close> and
    \<^verbatim>\<open>'base64'\<close> codecs; \<open>sha256_hex\<close> is the hex digest behind the key identifier.
\<close>

type_synonym buffer = string

record node_crypto =
  gcm_seal :: "buffer \<Rightarrow> buffer \<Rightarrow> buffer \<times> buffer"
  gcm_open :: "buffer \<Rightarrow> buffer option \<Rightarrow> buffer \<Rightarrow> buffer option"
  utf8_enc :: "string \<Rightarrow> buffer"
  utf8_dec :: "buffer \<Rightarrow> string"
  b64_enc :: "buffer \<Rightarrow> string"
  b64_dec :: "string \<Rightarrow> buffer"
  sha256_hex :: "buffer \<Rightarrow> string"

text \<open>
  What the key manager relies on: a sealed pair opens under the same key to the data that
  was sealed, the tag is not empty in base64 (a GCM tag is 16 bytes), and base64 decoding
  undoes base64 encoding.
\<close>

definition node_crypto_ok :: "node_crypto \<Rightarrow> bool" where
  "node_crypto_ok L \<longleftrightarrow>
     (\<forall>k p. gcm_open L k (Some (snd (gcm_seal L k p))) (fst (gcm_seal L k p)) = Some p) \<and>
     (\<forall>k p. b64_enc L (snd (gcm_seal L k p)) \<noteq> []) \<and>
     (\<forall>b. b64_dec L (b64_enc L b) = b)"


text \<open>A JavaScript value is falsy when it is the empty string (or absent).\<close>

definition truthy :: "string \<Rightarrow> bool" where
  "truthy v \<longleftrightarrow> v \<noteq> []"

section \<open>The master key manager: config/masterKey.js\<close>

record key_object =
  key :: string
  kversion :: nat
  kalgorithm :: string
  createdAt :: int
  keyId :: string

record key_data = key_object +
  savedAt :: int

text \<open>
  The key file holds the JSON of the key data encrypted with AES-256-CBC under the storage
  password.  The file is modelled by what it was encrypted with and what it holds: reading
  it back succeeds exactly under the same password.  \<open>Unreadable\<close> is a file whose contents
  are not such a ciphertext at all (\<^verbatim>\<open>decipher.final\<close> or \<^verbatim>\<open>JSON.parse\<close> throws).
\<close>

datatype key_file = Encrypted string key_data | Unreadable

record rotation_entry =
  log_timestamp :: int
  log_action :: string
  oldVersion :: nat
  newVersion :: nat
  log_keyId :: string
  log_algorithm :: string

text \<open>
  The module-level variables \<^verbatim>\<open>currentMasterKey\<close>, \<^verbatim>\<open>keyVersion\<close>, \<^verbatim>\<open>keyCreatedAt\<close>, and the
  two files the module writes: \<^verbatim>\<open>master.key\<close> (absent, or one file) and \<^verbatim>\<open>rotation.log\<close>.
  Times are milliseconds since the epoch, and each operation reads the clock once.
  Writes to the key directory are taken to succeed.
\<close>

record mk_state =
  currentMasterKey :: "buffer option"
  keyVersion :: nat
  keyCreatedAt :: "int option"
  master_key_file :: "key_file option"
  rotation_log :: "rotation_entry list"

definition initial_state :: "key_file option \<Rightarrow> rotation_entry list \<Rightarrow> mk_state" where
  "initial_state f lg =
     \<lparr>currentMasterKey = None, keyVersion = 1, keyCreatedAt = None,
      master_key_file = f, rotation_log = lg\<rparr>"

datatype mk_error = NotInitialized | KeyWrappingFailed | KeyUnwrappingFailed

text \<open>\<^verbatim>\<open>process.env.STORAGE_PASSWORD || 'default-dev-password'\<close>\<close>

definition storageKey :: "string option \<Rightarrow> string" where
  "storageKey env =
     (case env of
        None \<Rightarrow> ''default-dev-password''
      | Some p \<Rightarrow> if truthy p then p else ''default-dev-password'')"

text \<open>\<open>rnd\<close> is the result of \<^verbatim>\<open>crypto.randomBytes(32)\<close>, \<open>now\<close> the clock.\<close>

definition generateMasterKey :: "node_crypto \<Rightarrow> mk_state \<Rightarrow> buffer \<Rightarrow> int \<Rightarrow> key_object" where
  "generateMasterKey L s rnd now =
     \<lparr>key = b64_enc L rnd,
      kversion = keyVersion s + 1,
      kalgorithm = ''AES-256-GCM'',
      createdAt = now,
      keyId = take 16 (sha256_hex L rnd)\<rparr>"

definition logKeyRotation :: "mk_state \<Rightarrow> key_object \<Rightarrow> int \<Rightarrow> rotation_entry" where
  "logKeyRotation s keyObject now =
     \<lparr>log_timestamp = now,
      log_action = ''KEY_ROTATION'',
      oldVersion = keyVersion s,
      newVersion = kversion keyObject,
      log_keyId = keyId keyObject,
      log_algorithm = kalgorithm keyObject\<rparr>"

definition saveMasterKey :: "string option \<Rightarrow> mk_state \<Rightarrow> key_object \<Rightarrow> int \<Rightarrow> mk_state" where
  "saveMasterKey env s keyObject now =
     (let keyData = \<lparr>key = key keyObject, kversion = kversion keyObject,
                     kalgorithm = kalgorithm keyObject, createdAt = createdAt keyObject,
                     keyId = keyId keyObject, savedAt = now\<rparr>
      in s\<lparr>master_key_file := Some (Encrypted (storageKey env) keyData),
           rotation_log := rotation_log s @ [logKeyRotation s keyObject now]\<rparr>)"

text \<open>
  \<^verbatim>\<open>loadMasterKey\<close> returns \<^verbatim>\<open>null\<close> when the file does not exist, and also, from its
  \<^verbatim>\<open>catch\<close> block, when reading, decrypting or parsing it throws.
\<close>

definition loadMasterKey :: "string option \<Rightarrow> mk_state \<Rightarrow> key_data option" where
  "loadMasterKey env s =
     (case master_key_file s of
        None \<Rightarrow> None
      | Some Unreadable \<Rightarrow> None
      | Some (Encrypted pw keyData) \<Rightarrow> if pw = storageKey env then Some keyData else None)"

definition rotateMasterKey ::
  "node_crypto \<Rightarrow> string option \<Rightarrow> mk_state \<Rightarrow> buffer \<Rightarrow> int \<Rightarrow> mk_state" where
  "rotateMasterKey L env s rnd now =
     (let newKeyObject = generateMasterKey L s rnd now;
          s' = s\<lparr>currentMasterKey := Some (b64_dec L (key newKeyObject)),
                 keyVersion := kversion newKeyObject,
                 keyCreatedAt := Some (createdAt newKeyObject)\<rparr>
      in saveMasterKey env s' newKeyObject now)"

definition maxAge :: int where
  "maxAge = 90 * 24 * 60 * 60 * 1000"

definition initMasterKey ::
  "node_crypto \<Rightarrow> string option \<Rightarrow> mk_state \<Rightarrow> buffer \<Rightarrow> int \<Rightarrow> mk_state" where
  "initMasterKey L env s rnd now =
     (case loadMasterKey env s of
        Some existingKey \<Rightarrow>
          (let s' = s\<lparr>currentMasterKey := Some (b64_dec L (key existingKey)),
                      keyVersion := kversion existingKey,
                      keyCreatedAt := Some (createdAt existingKey)\<rparr>
           in if now - createdAt existingKey > maxAge
              then rotateMasterKey L env s' rnd now
              else s')
      | None \<Rightarrow>
          (let newKey = generateMasterKey L s rnd now;
               s' = s\<lparr>currentMasterKey := Some (b64_dec L (key newKey)),
                      keyVersion := kversion newKey,
                      keyCreatedAt := Some (createdAt newKey)\<rparr>
           in saveMasterKey env s' newKey now))"

definition getCurrentMasterKey :: "mk_state \<Rightarrow> mk_error + buffer" where
  "getCurrentMasterKey s =
     (case currentMasterKey s of None \<Rightarrow> Inl NotInitialized | Some k \<Rightarrow> Inr k)"

record wrapped_key =
  wrappedKey :: string
  authTag :: string
  version :: nat
  algorithm :: string

text \<open>
  Every exception inside \<^verbatim>\<open>wrapKey\<close> is caught and replaced by the error
  \<^verbatim>\<open>'Key wrapping operation failed'\<close>; likewise \<^verbatim>\<open>unwrapKey\<close> and
  \<^verbatim>\<open>'Key unwrapping operation failed'\<close>.
\<close>

definition wrapKey :: "node_crypto \<Rightarrow> mk_state \<Rightarrow> string \<Rightarrow> mk_error + wrapped_key" where
  "wrapKey L s dek =
     (case getCurrentMasterKey s of
        Inl e \<Rightarrow> Inl KeyWrappingFailed
      | Inr masterKey \<Rightarrow>
          (case gcm_seal L masterKey (utf8_enc L dek) of
             (encrypted, tag) \<Rightarrow>
               Inr \<lparr>wrappedKey = b64_enc L encrypted,
                    authTag = b64_enc L tag,
                    version = keyVersion s,
                    algorithm = ''AES-256-GCM''\<rparr>))"

definition unwrapKey :: "node_crypto \<Rightarrow> mk_state \<Rightarrow> wrapped_key \<Rightarrow> mk_error + string" where
  "unwrapKey L s wrappedData =
     (case getCurrentMasterKey s of
        Inl e \<Rightarrow> Inl KeyUnwrappingFailed
      | Inr masterKey \<Rightarrow>
          (let tag = (if truthy (authTag wrappedData)
                      then Some (b64_dec L (authTag wrappedData)) else None)
           in case gcm_open L masterKey tag (b64_dec L (wrappedKey wrappedData)) of
                None \<Rightarrow> Inl KeyUnwrappingFailed
              | Some decrypted \<Rightarrow> Inr (utf8_dec L decrypted)))"

subsection \<open>A small instance of the primitives\<close>

text \<open>
  An instance on which the operations can be evaluated: the ciphertext is the data
  reversed, the tag is the key followed by the data and a marker byte, and opening
  recomputes the tag and compares.  The codecs are the identity.
\<close>

definition demo_seal :: "buffer \<Rightarrow> buffer \<Rightarrow> buffer \<times> buffer" where
  "demo_seal k p = (rev p, k @ p @ ''#'')"

definition demo_open :: "buffer \<Rightarrow> buffer option \<Rightarrow> buffer \<Rightarrow> buffer option" where
  "demo_open k t c =
     (case t of
        None \<Rightarrow> None
      | Some tag \<Rightarrow> if tag = k @ rev c @ ''#'' then Some (rev c) else None)"

definition demo_crypto :: node_crypto where
  "demo_crypto =
     \<lparr>gcm_seal = demo_seal, gcm_open = demo_open,
      utf8_enc = (\<lambda>x. x), utf8_dec = (\<lambda>x. x),
      b64_enc = (\<lambda>x. x), b64_dec = (\<lambda>x. x),
      sha256_hex = (\<lambda>x. x @ ''0000000000000000'')\<rparr>"

text \<open>
  Two concrete states: \<open>boot_state\<close> is the module after a first start with no key file
  (random bytes \<open>K1\<close>, clock 1000), and \<open>foreign_file_state\<close> is the module before a
  start that finds a key file written under another storage password.
\<close>

definition boot_state :: mk_state where
  "boot_state = initMasterKey demo_crypto None (initial_state None []) ''K1'' 1000"

definition stored_key :: key_data where
  "stored_key =
     \<lparr>key = ''K1'', kversion = 2, kalgorithm = ''AES-256-GCM'', createdAt = 1000,
      keyId = ''K100000000000000'', savedAt = 1000\<rparr>"

definition foreign_file_state :: mk_state where
  "foreign_file_state = initial_state (Some (Encrypted ''prod-password'' stored_key)) []"

text \<open>
  \<open>rotated_state\<close> is \<open>boot_state\<close> after one rotation (random bytes \<open>K2\<close>, clock 2000);
  \<open>boot_envelope\<close> is what \<open>boot_state\<close> wraps the key \<open>dek-0123\<close> into.
\<close>

definition rotated_state :: mk_state where
  "rotated_state = rotateMasterKey demo_crypto None boot_state ''K2'' 2000"

definition boot_envelope :: wrapped_key where
  "boot_envelope =
     \<lparr>wrappedKey = ''3210-ked'', authTag = ''K1dek-0123#'', version = 2,
      algorithm = ''AES-256-GCM''\<rparr>"

subsection \<open>An instance with a tag of sixteen bytes\<close>






section \<open>Tokens\<close>

text \<open>
  The payload that \<^verbatim>\<open>/login\<close> signs.  \<open>iat\<close> and \<open>exp\<close> are seconds since the epoch.
\<close>

record jwt_claims =
  jti :: string
  sub :: string
  username :: string
  email :: string
  iat :: int
  exp :: int

text \<open>
  A bearer token is either not a JWT at all, or a payload together with the public key
  under which its RS256 signature verifies.  \<open>jwt_verify\<close> is \<^verbatim>\<open>jwt.verify\<close> of the
  \<^verbatim>\<open>jsonwebtoken\<close> package with \<^verbatim>\<open>algorithms: ['RS256']\<close>: it checks the signature first
  and then the expiry against the clock, with the tolerance given.
\<close>

datatype jwt = Malformed | Signed jwt_claims string

datatype jwt_error = JsonWebTokenError string | TokenExpiredError string

fun error_message :: "jwt_error \<Rightarrow> string" where
  "error_message (JsonWebTokenError m) = m"
| "error_message (TokenExpiredError m) = m"

definition jwt_verify :: "jwt \<Rightarrow> string \<Rightarrow> int \<Rightarrow> int \<Rightarrow> jwt_error + jwt_claims" where
  "jwt_verify token publicKey clockTolerance now =
     (case token of
        Malformed \<Rightarrow> Inl (JsonWebTokenError ''jwt malformed'')
      | Signed payload signer \<Rightarrow>
          if signer \<noteq> publicKey then Inl (JsonWebTokenError ''invalid signature'')
          else if now \<ge> exp payload + clockTolerance then Inl (TokenExpiredError ''jwt expired'')
          else Inr payload)"

text \<open>An HTTP reply: the status and the \<^verbatim>\<open>error\<close> and \<^verbatim>\<open>message\<close> fields of the JSON body.\<close>

record response =
  status :: nat
  error :: "string option"
  message :: "string option"

datatype auth_header = Bearer jwt | NotBearer

section \<open>The authentication service: routes/auth.js\<close>

record blacklist_row =
  token_jti :: string
  user_id :: string
  expired_at :: int

record user_row =
  id :: string
  is_active :: bool

text \<open>
  The two tables the routes below touch.  \<^verbatim>\<open>token_jti\<close> is \<^verbatim>\<open>UNIQUE\<close> and \<^verbatim>\<open>user_id\<close>
  references \<^verbatim>\<open>users(id)\<close>, so an insert that breaks either constraint throws.  The
  database itself is taken to be reachable.
\<close>

record auth_db =
  token_blacklist :: "blacklist_row list"
  users :: "user_row list"

definition verify_route :: "string \<Rightarrow> auth_db \<Rightarrow> int \<Rightarrow> auth_header option \<Rightarrow> response" where
  "verify_route publicKey db now authHeader =
     (case authHeader of
        None \<Rightarrow> \<lparr>status = 401, error = Some ''No token provided'', message = None\<rparr>
      | Some NotBearer \<Rightarrow> \<lparr>status = 401, error = Some ''No token provided'', message = None\<rparr>
      | Some (Bearer token) \<Rightarrow>
          (case jwt_verify token publicKey 0 now of
             Inl (JsonWebTokenError m) \<Rightarrow>
               \<lparr>status = 401, error = Some ''Invalid token'', message = None\<rparr>
           | Inl (TokenExpiredError m) \<Rightarrow>
               \<lparr>status = 401, error = Some ''Token has expired'', message = None\<rparr>
           | Inr decoded \<Rightarrow>
               if filter (\<lambda>row. token_jti row = jti decoded) (token_blacklist db) \<noteq> []
               then \<lparr>status = 401, error = Some ''Token has been revoked'', message = None\<rparr>
               else if filter (\<lambda>u. id u = sub decoded \<and> is_active u) (users db) = []
               then \<lparr>status = 401, error = Some ''User not found or inactive'',
                     message = None\<rparr>
               else \<lparr>status = 200, error = None, message = None\<rparr>))"

definition logout_route ::
  "string \<Rightarrow> auth_db \<Rightarrow> int \<Rightarrow> auth_header option \<Rightarrow> response \<times> auth_db" where
  "logout_route publicKey db now authHeader =
     (case authHeader of
        None \<Rightarrow> (\<lparr>status = 400, error = Some ''No token provided'', message = None\<rparr>, db)
      | Some NotBearer \<Rightarrow>
          (\<lparr>status = 400, error = Some ''No token provided'', message = None\<rparr>, db)
      | Some (Bearer token) \<Rightarrow>
          (case jwt_verify token publicKey 0 now of
             Inl e \<Rightarrow> (\<lparr>status = 500, error = Some ''Logout failed'', message = None\<rparr>, db)
           | Inr decoded \<Rightarrow>
               if filter (\<lambda>row. token_jti row = jti decoded) (token_blacklist db) \<noteq> [] \<or>
                  filter (\<lambda>u. id u = sub decoded) (users db) = []
               then (\<lparr>status = 500, error = Some ''Logout failed'', message = None\<rparr>, db)
               else (\<lparr>status = 200, error = None, message = Some ''Logout successful''\<rparr>,
                     db\<lparr>token_blacklist := token_blacklist db @
                          [\<lparr>token_jti = jti decoded, user_id = sub decoded,
                            expired_at = exp decoded * 1000\<rparr>]\<rparr>)))"

section \<open>The public key cache: services/authService.js\<close>

text \<open>
  \<^verbatim>\<open>publicKeyCache\<close> is a \<^verbatim>\<open>NodeCache\<close> with \<^verbatim>\<open>stdTTL: 300\<close> that only ever holds the key
  \<^verbatim>\<open>'auth_public_key'\<close>: it is empty, or it holds a value and the time at which the value
  expires.  \<^verbatim>\<open>get\<close> does not return an expired value.  The clock is in seconds.
\<close>

type_synonym node_cache = "(string \<times> int) option"

definition stdTTL :: int where
  "stdTTL = 300"

definition cache_get :: "node_cache \<Rightarrow> int \<Rightarrow> string option" where
  "cache_get cache now =
     (case cache of
        None \<Rightarrow> None
      | Some (v, expires) \<Rightarrow> if expires < now then None else Some v)"

definition cache_set :: "string \<Rightarrow> int \<Rightarrow> node_cache" where
  "cache_set v now = Some (v, now + stdTTL)"

text \<open>The test \<^verbatim>\<open>if (cachedKey)\<close>: a value that is there and is not the empty string.\<close>

definition present :: "string option \<Rightarrow> string option" where
  "present v = (case v of None \<Rightarrow> None | Some k \<Rightarrow> if truthy k then Some k else None)"

text \<open>
  The result of the HTTP request to \<^verbatim>\<open>/api/auth/public-key\<close> is a network error, or a
  response whose body may carry a \<^verbatim>\<open>publicKey\<close>.  \<open>fetched_key\<close> is the outcome of the
  \<^verbatim>\<open>try\<close> block after the request: the key of a well-formed response, or the message of
  the error thrown.
\<close>

datatype http_result = NetworkError string | HttpResponse "string option"

definition fetched_key :: "http_result \<Rightarrow> string + string" where
  "fetched_key reply =
     (case reply of
        NetworkError m \<Rightarrow> Inl m
      | HttpResponse None \<Rightarrow> Inl ''Invalid response format from auth service''
      | HttpResponse (Some publicKey) \<Rightarrow>
          if truthy publicKey then Inr publicKey
          else Inl ''Invalid response format from auth service'')"

text \<open>
  One call of \<^verbatim>\<open>fetchAuthPublicKey\<close>, entered at time \<open>now\<close>, whose request settles at
  time \<open>settled\<close>: it reads the cache, awaits the request when the cache gave no key, and
  in its \<^verbatim>\<open>catch\<close> block reads the cache again.  No other call runs in between.  The
  result is the key or the error thrown, and the cache.
\<close>

definition fetchAuthPublicKey ::
  "node_cache \<Rightarrow> int \<Rightarrow> http_result \<Rightarrow> int \<Rightarrow> (string + string) \<times> node_cache" where
  "fetchAuthPublicKey cache now reply settled =
     (case present (cache_get cache now) of
        Some cachedKey \<Rightarrow> (Inr cachedKey, cache)
      | None \<Rightarrow>
          (case fetched_key reply of
             Inr publicKey \<Rightarrow> (Inr publicKey, cache_set publicKey settled)
           | Inl m \<Rightarrow>
               (case present (cache_get cache settled) of
                  Some cachedKey \<Rightarrow> (Inr cachedKey, cache)
                | None \<Rightarrow> (Inl m, cache))))"

definition getAuthPublicKey :: "node_cache \<Rightarrow> int \<Rightarrow> string option" where
  "getAuthPublicKey cache now = cache_get cache now"

section \<open>The dual authorization gate: middleware/auth.js\<close>

definition verifyJWT :: "jwt \<Rightarrow> string \<Rightarrow> int \<Rightarrow> string + jwt_claims" where
  "verifyJWT token publicKey now =
     (case jwt_verify token publicKey 30 now of
        Inl e \<Rightarrow> Inl (''JWT verification failed: '' @ error_message e)
      | Inr decoded \<Rightarrow> Inr decoded)"

text \<open>
  Redis is a map from keys to strings, or it is failing (no client, or \<^verbatim>\<open>get\<close> rejects).
  The \<^verbatim>\<open>catch\<close> block of \<^verbatim>\<open>checkTokenBlacklist\<close> returns \<^verbatim>\<open>false\<close>.
\<close>

datatype redis = RedisError | Redis "string \<Rightarrow> string option"

definition checkTokenBlacklist :: "redis \<Rightarrow> string \<Rightarrow> bool" where
  "checkTokenBlacklist r j =
     (case r of
        RedisError \<Rightarrow> False
      | Redis store \<Rightarrow> store (''blacklist:'' @ j) = Some ''true'')"

record request =
  authorization :: "auth_header option"
  x_third_party_token :: "jwt option"

text \<open>A request that carries both tokens.\<close>

definition dual_request :: "jwt \<Rightarrow> jwt \<Rightarrow> request" where
  "dual_request token thirdPartyToken =
     \<lparr>authorization = Some (Bearer token), x_third_party_token = Some thirdPartyToken\<rparr>"

record auth =
  auth_user_id :: string
  auth_username :: string
  auth_email :: string
  tokenInfo_jti :: string
  tokenInfo_issuedAt :: int
  tokenInfo_expiresAt :: int
  thirdPartyAuth_jti :: string
  thirdPartyAuth_issuedAt :: int
  thirdPartyAuth_expiresAt :: int

text \<open>
  The middleware either answers the request itself (\<open>Inl\<close>) or attaches \<^verbatim>\<open>req.auth\<close> and
  calls \<^verbatim>\<open>next()\<close> (\<open>Inr\<close>).  \<open>cache\<close> is the public key cache, \<open>now\<close> the clock in seconds,
  read once for the request.  The payload fields are present, as \<^verbatim>\<open>/login\<close> signs them, so
  the outer \<^verbatim>\<open>catch\<close> of the middleware (status 500) is not reached.
\<close>

definition verifyDualAuth :: "node_cache \<Rightarrow> redis \<Rightarrow> int \<Rightarrow> request \<Rightarrow> response + auth" where
  "verifyDualAuth cache r now req =
     (case authorization req of
        None \<Rightarrow> Inl \<lparr>status = 401, error = Some ''Missing or invalid authorization header'',
                     message = None\<rparr>
      | Some NotBearer \<Rightarrow>
          Inl \<lparr>status = 401, error = Some ''Missing or invalid authorization header'',
               message = None\<rparr>
      | Some (Bearer token) \<Rightarrow>
     (case x_third_party_token req of
        None \<Rightarrow> Inl \<lparr>status = 401, error = Some ''Missing third-party authentication token'',
                     message = Some ''KACLS requires dual authentication''\<rparr>
      | Some thirdPartyToken \<Rightarrow>
     (case present (getAuthPublicKey cache now) of
        None \<Rightarrow> Inl \<lparr>status = 503, error = Some ''Authentication service unavailable'',
                     message = None\<rparr>
      | Some authPublicKey \<Rightarrow>
     (case verifyJWT token authPublicKey now of
        Inl m \<Rightarrow> Inl \<lparr>status = 401, error = Some ''Invalid Google JWT token'',
                      message = Some m\<rparr>
      | Inr googleJWT \<Rightarrow>
          if checkTokenBlacklist r (jti googleJWT)
          then Inl \<lparr>status = 401, error = Some ''Token has been revoked'', message = None\<rparr>
          else
     (case verifyJWT thirdPartyToken authPublicKey now of
        Inl m \<Rightarrow> Inl \<lparr>status = 401, error = Some ''Invalid third-party JWT token'',
                      message = Some m\<rparr>
      | Inr thirdPartyJWT \<Rightarrow>
          if sub googleJWT \<noteq> sub thirdPartyJWT \<or>
             username googleJWT \<noteq> username thirdPartyJWT
          then Inl \<lparr>status = 401, error = Some ''Token mismatch'',
                    message = Some
                      ''Google JWT and third-party JWT must belong to the same user''\<rparr>
          else if exp googleJWT < now \<or> exp thirdPartyJWT < now
          then Inl \<lparr>status = 401, error = Some ''Token expired'', message = None\<rparr>
          else Inr \<lparr>auth_user_id = sub googleJWT,
                    auth_username = username googleJWT,
                    auth_email = email googleJWT,
                    tokenInfo_jti = jti googleJWT,
                    tokenInfo_issuedAt = iat googleJWT * 1000,
                    tokenInfo_expiresAt = exp googleJWT * 1000,
                    thirdPartyAuth_jti = jti thirdPartyJWT,
                    thirdPartyAuth_issuedAt = iat thirdPartyJWT * 1000,
                    thirdPartyAuth_expiresAt = exp thirdPartyJWT * 1000\<rparr>)))))"

subsection \<open>Concrete tokens and requests\<close>

definition alice_claims :: jwt_claims where
  "alice_claims =
     \<lparr>jti = ''jti-1'', sub = ''u1'', username = ''alice'', email = ''alice@example.org'',
      iat = 100, exp = 86500\<rparr>"

definition resource_token :: jwt where
  "resource_token = Signed alice_claims ''PK''"

definition identity_token :: jwt where
  "identity_token = Signed (alice_claims\<lparr>jti := ''jti-2''\<rparr>) ''PK''"

definition bob_token :: jwt where
  "bob_token =
     Signed \<lparr>jti = ''jti-3'', sub = ''u2'', username = ''bob'', email = ''bob@example.org'',
             iat = 100, exp = 86500\<rparr> ''PK''"

definition alice_auth :: auth where
  "alice_auth =
     \<lparr>auth_user_id = ''u1'', auth_username = ''alice'', auth_email = ''alice@example.org'',
      tokenInfo_jti = ''jti-1'', tokenInfo_issuedAt = 100000, tokenInfo_expiresAt = 86500000,
      thirdPartyAuth_jti = ''jti-2'', thirdPartyAuth_issuedAt = 100000,
      thirdPartyAuth_expiresAt = 86500000\<rparr>"

definition fresh_cache :: node_cache where
  "fresh_cache = cache_set ''PK'' 99900"

definition stale_cache :: node_cache where
  "stale_cache = cache_set ''PK'' 0"

definition demo_db :: auth_db where
  "demo_db = \<lparr>token_blacklist = [], users = [\<lparr>id = ''u1'', is_active = True\<rparr>]\<rparr>"

definition redis_with :: "string \<Rightarrow> redis" where
  "redis_with j = Redis (\<lambda>k. if k = ''blacklist:'' @ j then Some ''true'' else None)"

section \<open>Properties of the key manager\<close>

lemma demo_crypto_ok: "node_crypto_ok demo_crypto"
  by (simp add: node_crypto_ok_def demo_crypto_def demo_seal_def demo_open_def)

lemma boot_state_eval:
  "boot_state =
     \<lparr>currentMasterKey = Some ''K1'', keyVersion = 2, keyCreatedAt = Some 1000,
      master_key_file = Some (Encrypted ''default-dev-password'' stored_key),
      rotation_log =
        [\<lparr>log_timestamp = 1000, log_action = ''KEY_ROTATION'', oldVersion = 2,
          newVersion = 2, log_keyId = ''K100000000000000'',
          log_algorithm = ''AES-256-GCM''\<rparr>]\<rparr>"
  by (simp add: boot_state_def initMasterKey_def loadMasterKey_def initial_state_def
      generateMasterKey_def saveMasterKey_def logKeyRotation_def storageKey_def
      demo_crypto_def stored_key_def Let_def)

lemma wrapKey_result:
  "currentMasterKey s = Some mk \<Longrightarrow>
   wrapKey L s dek =
     Inr \<lparr>wrappedKey = b64_enc L (fst (gcm_seal L mk (utf8_enc L dek))),
          authTag = b64_enc L (snd (gcm_seal L mk (utf8_enc L dek))),
          version = keyVersion s,
          algorithm = ''AES-256-GCM''\<rparr>"
  by (simp add: wrapKey_def getCurrentMasterKey_def split: prod.splits)

lemma unwrapKey_result:
  "currentMasterKey s = Some mk \<Longrightarrow>
   unwrapKey L s wd =
     (case gcm_open L mk
             (if truthy (authTag wd) then Some (b64_dec L (authTag wd)) else None)
             (b64_dec L (wrappedKey wd)) of
        None \<Rightarrow> Inl KeyUnwrappingFailed
      | Some decrypted \<Rightarrow> Inr (utf8_dec L decrypted))"
  by (simp add: unwrapKey_def getCurrentMasterKey_def Let_def)

lemma rotateMasterKey_fields:
  "currentMasterKey (rotateMasterKey L env s rnd now) = Some (b64_dec L (b64_enc L rnd))"
  "keyVersion (rotateMasterKey L env s rnd now) = keyVersion s + 1"
  by (simp_all add: rotateMasterKey_def generateMasterKey_def saveMasterKey_def Let_def)

text \<open>
  C1.  With the master key initialised, wrapping a data-encryption key succeeds, and
  unwrapping the envelope in any state that holds the same master key returns the
  original key.  The key is text that survives UTF-8 encoding and decoding.
\<close>

theorem unwrap_wrap_roundtrip:
  assumes "node_crypto_ok L"
    and "utf8_dec L (utf8_enc L dek) = dek"
    and "currentMasterKey s = Some mk"
    and "currentMasterKey s' = currentMasterKey s"
  shows "\<exists>e. wrapKey L s dek = Inr e \<and> unwrapKey L s' e = Inr dek"
proof -
  let ?c = "fst (gcm_seal L mk (utf8_enc L dek))"
  let ?t = "snd (gcm_seal L mk (utf8_enc L dek))"
  let ?e = "\<lparr>wrappedKey = b64_enc L ?c, authTag = b64_enc L ?t,
             version = keyVersion s, algorithm = ''AES-256-GCM''\<rparr>"
  from assms(1) have opens: "gcm_open L mk (Some ?t) ?c = Some (utf8_enc L dek)"
    and tag: "b64_enc L ?t \<noteq> []"
    and b64: "\<And>b. b64_dec L (b64_enc L b) = b"
    by (simp_all add: node_crypto_ok_def)
  have w: "wrapKey L s dek = Inr ?e"
    using assms(3) by (rule wrapKey_result)
  from assms(3,4) have "currentMasterKey s' = Some mk" by simp
  then have "unwrapKey L s' ?e = Inr dek"
    by (simp add: unwrapKey_result truthy_def tag b64 opens assms(2))
  with w show ?thesis by blast
qed

theorem unwrap_wrap_roundtrip_witness:
  "node_crypto_ok demo_crypto \<and>
   currentMasterKey boot_state = Some ''K1'' \<and>
   wrapKey demo_crypto boot_state ''dek-0123'' =
     Inr \<lparr>wrappedKey = ''3210-ked'', authTag = ''K1dek-0123#'', version = 2,
          algorithm = ''AES-256-GCM''\<rparr> \<and>
   unwrapKey demo_crypto boot_state
     \<lparr>wrappedKey = ''3210-ked'', authTag = ''K1dek-0123#'', version = 2,
      algorithm = ''AES-256-GCM''\<rparr> = Inr ''dek-0123''"
proof -
  have k: "currentMasterKey boot_state = Some ''K1''"
    by (simp add: boot_state_eval)
  have u: "utf8_dec demo_crypto (utf8_enc demo_crypto ''dek-0123'') = ''dek-0123''"
    by (simp add: demo_crypto_def)
  have w: "wrapKey demo_crypto boot_state ''dek-0123'' =
     Inr \<lparr>wrappedKey = ''3210-ked'', authTag = ''K1dek-0123#'', version = 2,
          algorithm = ''AES-256-GCM''\<rparr>"
    by (simp add: wrapKey_def getCurrentMasterKey_def boot_state_eval demo_crypto_def
        demo_seal_def)
  from unwrap_wrap_roundtrip [OF demo_crypto_ok u k refl] w demo_crypto_ok k
  show ?thesis
    by auto
qed

lemma rotated_state_key:
  "currentMasterKey rotated_state = Some ''K2''" "keyVersion rotated_state = 3"
  by (simp_all add: rotated_state_def rotateMasterKey_fields boot_state_eval demo_crypto_def)

text \<open>
  C2, as stated, fails: \<open>unwrapKey\<close> never reads the version of the envelope, and rotation
  replaces the only master key the module holds.  The envelope that \<open>boot_state\<close> produces
  and unwraps is refused after one rotation.
\<close>

theorem rotation_orphans_old_envelope:
  "wrapKey demo_crypto boot_state ''dek-0123'' = Inr boot_envelope \<and>
   unwrapKey demo_crypto boot_state boot_envelope = Inr ''dek-0123'' \<and>
   unwrapKey demo_crypto rotated_state boot_envelope = Inl KeyUnwrappingFailed"
  by (simp add: wrapKey_def unwrapKey_def getCurrentMasterKey_def rotated_state_key
      boot_state_eval boot_envelope_def demo_crypto_def demo_seal_def demo_open_def
      truthy_def)

text \<open>
  C2, amended.  After \<open>rotateMasterKey\<close> the module holds the new key only: the current
  key is the fresh random key, the key file holds the fresh key alone, and \<open>unwrapKey\<close>
  opens every envelope, whatever version it records, under the fresh key.  Envelopes
  wrapped after the rotation carry the previous version number plus one.
\<close>

theorem unwrap_after_rotation:
  "unwrapKey L (rotateMasterKey L env s rnd now) wd =
     (case gcm_open L (b64_dec L (b64_enc L rnd))
             (if truthy (authTag wd) then Some (b64_dec L (authTag wd)) else None)
             (b64_dec L (wrappedKey wd)) of
        None \<Rightarrow> Inl KeyUnwrappingFailed
      | Some decrypted \<Rightarrow> Inr (utf8_dec L decrypted)) \<and>
   unwrapKey L (rotateMasterKey L env s rnd now) (wd\<lparr>version := v\<rparr>) =
     unwrapKey L (rotateMasterKey L env s rnd now) wd \<and>
   master_key_file (rotateMasterKey L env s rnd now) =
     Some (Encrypted (storageKey env)
       \<lparr>key = b64_enc L rnd, kversion = keyVersion s + 1, kalgorithm = ''AES-256-GCM'',
        createdAt = now, keyId = take 16 (sha256_hex L rnd), savedAt = now\<rparr>) \<and>
   wrapKey L (rotateMasterKey L env s rnd now) dek =
     Inr \<lparr>wrappedKey =
            b64_enc L (fst (gcm_seal L (b64_dec L (b64_enc L rnd)) (utf8_enc L dek))),
          authTag =
            b64_enc L (snd (gcm_seal L (b64_dec L (b64_enc L rnd)) (utf8_enc L dek))),
          version = keyVersion s + 1,
          algorithm = ''AES-256-GCM''\<rparr>"
proof -
  let ?s = "rotateMasterKey L env s rnd now"
  have k: "currentMasterKey ?s = Some (b64_dec L (b64_enc L rnd))"
    by (rule rotateMasterKey_fields)
  have v: "keyVersion ?s = keyVersion s + 1"
    by (rule rotateMasterKey_fields)
  have f: "master_key_file ?s =
     Some (Encrypted (storageKey env)
       \<lparr>key = b64_enc L rnd, kversion = keyVersion s + 1, kalgorithm = ''AES-256-GCM'',
        createdAt = now, keyId = take 16 (sha256_hex L rnd), savedAt = now\<rparr>)"
    by (simp add: rotateMasterKey_def generateMasterKey_def saveMasterKey_def Let_def)
  show ?thesis
    by (simp add: unwrapKey_result [OF k] wrapKey_result [OF k] v f)
qed

text \<open>
  C5, as stated, fails: \<open>wrapKey\<close> creates the cipher from the master key alone, with no
  nonce, and changes no state, so two calls with the same key return the same envelope.
\<close>

theorem wrap_twice_same_ciphertext:
  "(case (wrapKey demo_crypto boot_state ''dek-0123'',
          wrapKey demo_crypto boot_state ''dek-0123'') of
      (Inr e1, Inr e2) \<Rightarrow> wrappedKey e1 = wrappedKey e2 \<and> authTag e1 = authTag e2
    | _ \<Rightarrow> False)"
  by (simp add: wrapKey_def getCurrentMasterKey_def boot_state_eval demo_crypto_def
      demo_seal_def)

text \<open>
  C5, amended.  The envelope is determined by the master key, the key version and the
  key being wrapped: two calls of \<open>wrapKey\<close> with the same data-encryption key, in any two
  states that hold the same master key and version, return the same envelope.
\<close>

theorem wrapKey_deterministic:
  assumes "currentMasterKey s1 = currentMasterKey s2"
    and "keyVersion s1 = keyVersion s2"
  shows "wrapKey L s1 dek = wrapKey L s2 dek"
  using assms
  by (cases "currentMasterKey s2")
     (simp_all add: wrapKey_def getCurrentMasterKey_def split: prod.splits)

theorem wrapKey_deterministic_witness:
  "currentMasterKey boot_state = currentMasterKey (boot_state\<lparr>rotation_log := []\<rparr>) \<and>
   keyVersion boot_state = keyVersion (boot_state\<lparr>rotation_log := []\<rparr>) \<and>
   boot_state \<noteq> boot_state\<lparr>rotation_log := []\<rparr> \<and>
   wrapKey demo_crypto boot_state ''dek-0123'' =
     wrapKey demo_crypto (boot_state\<lparr>rotation_log := []\<rparr>) ''dek-0123'' \<and>
   wrapKey demo_crypto boot_state ''dek-0123'' = Inr boot_envelope"
proof -
  have a: "currentMasterKey boot_state = currentMasterKey (boot_state\<lparr>rotation_log := []\<rparr>)"
    by simp
  have b: "keyVersion boot_state = keyVersion (boot_state\<lparr>rotation_log := []\<rparr>)"
    by simp
  have c: "boot_state \<noteq> boot_state\<lparr>rotation_log := []\<rparr>"
    by (simp add: boot_state_eval)
  have d: "wrapKey demo_crypto boot_state ''dek-0123'' = Inr boot_envelope"
    by (simp add: wrapKey_def getCurrentMasterKey_def boot_state_eval demo_crypto_def
        demo_seal_def boot_envelope_def)
  from wrapKey_deterministic [OF a b, of demo_crypto "''dek-0123''"] a b c d
  show ?thesis by simp
qed

lemma initMasterKey_fresh:
  assumes "loadMasterKey env s = None"
  shows "initMasterKey L env s rnd now =
     s\<lparr>currentMasterKey := Some (b64_dec L (b64_enc L rnd)),
       keyVersion := keyVersion s + 1,
       keyCreatedAt := Some now,
       master_key_file := Some (Encrypted (storageKey env)
         \<lparr>key = b64_enc L rnd, kversion = keyVersion s + 1,
          kalgorithm = ''AES-256-GCM'', createdAt = now,
          keyId = take 16 (sha256_hex L rnd), savedAt = now\<rparr>),
       rotation_log := rotation_log s @
         [\<lparr>log_timestamp = now, log_action = ''KEY_ROTATION'',
           oldVersion = keyVersion s + 1, newVersion = keyVersion s + 1,
           log_keyId = take 16 (sha256_hex L rnd),
           log_algorithm = ''AES-256-GCM''\<rparr>]\<rparr>"
  using assms
  by (simp add: initMasterKey_def generateMasterKey_def saveMasterKey_def
      logKeyRotation_def Let_def)

text \<open>
  C6, as stated, fails: a key file written under another storage password exists and does
  not decrypt; \<open>loadMasterKey\<close> answers as if there were no file, and \<open>initMasterKey\<close>
  returns normally with a fresh master key and has overwritten the stored one.
\<close>

theorem undecryptable_key_file_is_regenerated:
  "master_key_file foreign_file_state = Some (Encrypted ''prod-password'' stored_key) \<and>
   loadMasterKey None foreign_file_state = None \<and>
   currentMasterKey (initMasterKey demo_crypto None foreign_file_state ''K9'' 5000)
     = Some ''K9'' \<and>
   master_key_file (initMasterKey demo_crypto None foreign_file_state ''K9'' 5000)
     = Some (Encrypted ''default-dev-password''
         \<lparr>key = ''K9'', kversion = 2, kalgorithm = ''AES-256-GCM'', createdAt = 5000,
          keyId = ''K900000000000000'', savedAt = 5000\<rparr>)"
proof -
  have l: "loadMasterKey None foreign_file_state = None"
    by (simp add: loadMasterKey_def foreign_file_state_def initial_state_def
        storageKey_def)
  show ?thesis
    by (simp add: initMasterKey_fresh [OF l] l)
       (simp add: foreign_file_state_def initial_state_def demo_crypto_def storageKey_def)
qed

text \<open>
  C6, amended.  When the key file is absent, or is present but does not decrypt under the
  storage password (or is not a ciphertext at all), start-up does not abort:
  \<open>loadMasterKey\<close> returns nothing, and \<open>initMasterKey\<close> generates a fresh key with the next
  version number, makes it current and overwrites the key file with it.
\<close>

theorem initMasterKey_regenerates:
  assumes "master_key_file s = None \<or> master_key_file s = Some Unreadable \<or>
           (\<exists>pw kd. master_key_file s = Some (Encrypted pw kd) \<and> pw \<noteq> storageKey env)"
  shows "loadMasterKey env s = None \<and>
         currentMasterKey (initMasterKey L env s rnd now) = Some (b64_dec L (b64_enc L rnd)) \<and>
         keyVersion (initMasterKey L env s rnd now) = keyVersion s + 1 \<and>
         master_key_file (initMasterKey L env s rnd now) =
           Some (Encrypted (storageKey env)
             \<lparr>key = b64_enc L rnd, kversion = keyVersion s + 1,
              kalgorithm = ''AES-256-GCM'', createdAt = now,
              keyId = take 16 (sha256_hex L rnd), savedAt = now\<rparr>)"
proof -
  from assms have l: "loadMasterKey env s = None"
    by (auto simp: loadMasterKey_def)
  show ?thesis
    by (simp add: initMasterKey_fresh [OF l] l)
qed

theorem initMasterKey_regenerates_witness:
  "master_key_file foreign_file_state = Some (Encrypted ''prod-password'' stored_key) \<and>
   ''prod-password'' \<noteq> storageKey (Some ''dev-password'') \<and>
   loadMasterKey (Some ''dev-password'') foreign_file_state = None \<and>
   keyVersion (initMasterKey demo_crypto (Some ''dev-password'') foreign_file_state ''K9'' 5000)
     = 2 \<and>
   master_key_file
     (initMasterKey demo_crypto (Some ''dev-password'') foreign_file_state ''K9'' 5000) =
     Some (Encrypted ''dev-password''
       \<lparr>key = ''K9'', kversion = 2, kalgorithm = ''AES-256-GCM'', createdAt = 5000,
        keyId = ''K900000000000000'', savedAt = 5000\<rparr>)"
proof -
  have f: "master_key_file foreign_file_state = Some (Encrypted ''prod-password'' stored_key)"
    by (simp add: foreign_file_state_def initial_state_def)
  have n: "''prod-password'' \<noteq> storageKey (Some ''dev-password'')"
    by (simp add: storageKey_def truthy_def)
  have h: "master_key_file foreign_file_state = None \<or>
           master_key_file foreign_file_state = Some Unreadable \<or>
           (\<exists>pw kd. master_key_file foreign_file_state = Some (Encrypted pw kd) \<and>
                    pw \<noteq> storageKey (Some ''dev-password''))"
    using f n by simp
  have v: "keyVersion foreign_file_state = 1"
    by (simp add: foreign_file_state_def initial_state_def)
  from initMasterKey_regenerates [OF h, of demo_crypto "''K9''" 5000] f n v
  show ?thesis
    by (simp add: demo_crypto_def storageKey_def truthy_def)
qed





section \<open>Properties of revocation and of the gate\<close>

lemma gate_eval:
  assumes "present (getAuthPublicKey cache now) = Some pk"
  shows "verifyDualAuth cache r now (dual_request t1 t2) =
     (case verifyJWT t1 pk now of
        Inl m \<Rightarrow> Inl \<lparr>status = 401, error = Some ''Invalid Google JWT token'',
                      message = Some m\<rparr>
      | Inr g \<Rightarrow>
          if checkTokenBlacklist r (jti g)
          then Inl \<lparr>status = 401, error = Some ''Token has been revoked'', message = None\<rparr>
          else
            (case verifyJWT t2 pk now of
               Inl m \<Rightarrow> Inl \<lparr>status = 401, error = Some ''Invalid third-party JWT token'',
                             message = Some m\<rparr>
             | Inr t \<Rightarrow>
                 if sub g \<noteq> sub t \<or> username g \<noteq> username t
                 then Inl \<lparr>status = 401, error = Some ''Token mismatch'',
                           message = Some
                             ''Google JWT and third-party JWT must belong to the same user''\<rparr>
                 else if exp g < now \<or> exp t < now
                 then Inl \<lparr>status = 401, error = Some ''Token expired'', message = None\<rparr>
                 else Inr \<lparr>auth_user_id = sub g, auth_username = username g,
                           auth_email = email g, tokenInfo_jti = jti g,
                           tokenInfo_issuedAt = iat g * 1000,
                           tokenInfo_expiresAt = exp g * 1000,
                           thirdPartyAuth_jti = jti t,
                           thirdPartyAuth_issuedAt = iat t * 1000,
                           thirdPartyAuth_expiresAt = exp t * 1000\<rparr>))"
  using assms by (simp add: verifyDualAuth_def dual_request_def)

lemma demo_cache:
  "present (getAuthPublicKey fresh_cache 300) = Some ''PK''"
  "present (getAuthPublicKey fresh_cache 90000) = Some ''PK''"
  by (simp_all add: present_def getAuthPublicKey_def cache_get_def cache_set_def
      fresh_cache_def stdTTL_def truthy_def)

lemma demo_verify:
  "verifyJWT resource_token ''PK'' 300 = Inr alice_claims"
  "verifyJWT identity_token ''PK'' 300 = Inr (alice_claims\<lparr>jti := ''jti-2''\<rparr>)"
  "verifyJWT bob_token ''PK'' 300 =
     Inr \<lparr>jti = ''jti-3'', sub = ''u2'', username = ''bob'', email = ''bob@example.org'',
          iat = 100, exp = 86500\<rparr>"
  by (simp_all add: verifyJWT_def jwt_verify_def resource_token_def identity_token_def
      bob_token_def alice_claims_def)

lemma demo_gate_ok:
  "verifyDualAuth fresh_cache RedisError 300 (dual_request resource_token identity_token)
     = Inr alice_auth"
  by (simp add: gate_eval [OF demo_cache(1)] demo_verify checkTokenBlacklist_def)
     (simp add: alice_claims_def alice_auth_def)

lemma logout_inserts:
  assumes "logout_route pk db now (Some (Bearer token)) = (rsp, db')"
    and "status rsp = 200"
  shows "\<exists>c. jwt_verify token pk 0 now = Inr c \<and>
             db' = db\<lparr>token_blacklist := token_blacklist db @
                      [\<lparr>token_jti = jti c, user_id = sub c, expired_at = exp c * 1000\<rparr>]\<rparr>"
  using assms
  by (auto simp: logout_route_def split: sum.splits if_splits)

lemma jwt_verify_same_claims:
  "jwt_verify token pk tol now = Inr c \<Longrightarrow> jwt_verify token pk tol' now' = Inr c' \<Longrightarrow> c' = c"
  by (auto simp: jwt_verify_def split: jwt.splits if_splits)

text \<open>
  C3, as stated, fails at the gate: after a successful logout the token is in
  \<^verbatim>\<open>token_blacklist\<close> and the authentication service refuses it, but the gate asks Redis
  only, and both with Redis failing and with Redis holding no entry it lets the token in.
\<close>

theorem revoked_token_passes_gate:
  "logout_route ''PK'' demo_db 200 (Some (Bearer resource_token)) =
     (\<lparr>status = 200, error = None, message = Some ''Logout successful''\<rparr>,
      demo_db\<lparr>token_blacklist :=
        [\<lparr>token_jti = ''jti-1'', user_id = ''u1'', expired_at = 86500000\<rparr>]\<rparr>) \<and>
   verifyDualAuth fresh_cache RedisError 300 (dual_request resource_token identity_token)
     = Inr alice_auth \<and>
   verifyDualAuth fresh_cache (Redis (\<lambda>k. None)) 300
     (dual_request resource_token identity_token) = Inr alice_auth"
proof -
  have "logout_route ''PK'' demo_db 200 (Some (Bearer resource_token)) =
     (\<lparr>status = 200, error = None, message = Some ''Logout successful''\<rparr>,
      demo_db\<lparr>token_blacklist :=
        [\<lparr>token_jti = ''jti-1'', user_id = ''u1'', expired_at = 86500000\<rparr>]\<rparr>)"
    by (simp add: logout_route_def jwt_verify_def resource_token_def alice_claims_def
        demo_db_def)
  moreover have "verifyDualAuth fresh_cache (Redis (\<lambda>k. None)) 300
     (dual_request resource_token identity_token) = Inr alice_auth"
    by (simp add: gate_eval [OF demo_cache(1)] demo_verify checkTokenBlacklist_def)
       (simp add: alice_claims_def alice_auth_def)
  ultimately show ?thesis
    using demo_gate_ok by simp
qed

text \<open>
  C3, amended.  A token whose \<open>jti\<close> a successful logout has inserted into
  \<^verbatim>\<open>token_blacklist\<close> is refused by the \<^verbatim>\<open>/verify\<close> route of the authentication service:
  always with status 401, and as revoked whenever its signature is valid and it has not
  expired.  The gate's \<open>checkTokenBlacklist\<close> consults Redis only: a token is revoked for
  it exactly when the key \<^verbatim>\<open>blacklist:<jti>\<close> holds \<^verbatim>\<open>'true'\<close>, and not revoked when the
  key is missing or Redis fails.
\<close>

theorem revocation_checks:
  assumes "logout_route pk db now (Some (Bearer token)) = (rsp, db')"
    and "status rsp = 200"
  shows "status (verify_route pk db' now' (Some (Bearer token))) = 401 \<and>
         (\<forall>c. jwt_verify token pk 0 now' = Inr c \<longrightarrow>
            verify_route pk db' now' (Some (Bearer token)) =
              \<lparr>status = 401, error = Some ''Token has been revoked'', message = None\<rparr>) \<and>
         checkTokenBlacklist RedisError j = False \<and>
         checkTokenBlacklist (Redis store) j = (store (''blacklist:'' @ j) = Some ''true'')"
proof -
  from logout_inserts [OF assms] obtain c where
    c: "jwt_verify token pk 0 now = Inr c"
    and db': "db' = db\<lparr>token_blacklist := token_blacklist db @
                      [\<lparr>token_jti = jti c, user_id = sub c, expired_at = exp c * 1000\<rparr>]\<rparr>"
    by blast
  have revoked: "verify_route pk db' now' (Some (Bearer token)) =
      \<lparr>status = 401, error = Some ''Token has been revoked'', message = None\<rparr>"
    if "jwt_verify token pk 0 now' = Inr c'" for c'
  proof -
    from jwt_verify_same_claims [OF c that] have "c' = c" .
    with that show ?thesis
      by (simp add: verify_route_def db')
  qed
  have "status (verify_route pk db' now' (Some (Bearer token))) = 401"
  proof (cases "jwt_verify token pk 0 now'")
    case (Inl e)
    then show ?thesis
      by (cases e) (simp_all add: verify_route_def)
  next
    case (Inr c')
    from revoked [OF this] show ?thesis by simp
  qed
  with revoked show ?thesis
    by (simp add: checkTokenBlacklist_def)
qed

theorem revocation_checks_witness:
  "status (fst (logout_route ''PK'' demo_db 200 (Some (Bearer resource_token)))) = 200 \<and>
   jwt_verify resource_token ''PK'' 0 300 = Inr alice_claims \<and>
   verify_route ''PK'' demo_db 300 (Some (Bearer resource_token)) =
     \<lparr>status = 200, error = None, message = None\<rparr> \<and>
   verify_route ''PK'' (snd (logout_route ''PK'' demo_db 200 (Some (Bearer resource_token))))
       300 (Some (Bearer resource_token)) =
     \<lparr>status = 401, error = Some ''Token has been revoked'', message = None\<rparr>"
proof -
  have l: "logout_route ''PK'' demo_db 200 (Some (Bearer resource_token)) =
     (\<lparr>status = 200, error = None, message = Some ''Logout successful''\<rparr>,
      snd (logout_route ''PK'' demo_db 200 (Some (Bearer resource_token))))"
    by (simp add: logout_route_def jwt_verify_def resource_token_def alice_claims_def
        demo_db_def)
  have s: "status \<lparr>status = 200, error = None, message = Some ''Logout successful''\<rparr> = 200"
    by simp
  have v: "jwt_verify resource_token ''PK'' 0 300 = Inr alice_claims"
    by (simp add: jwt_verify_def resource_token_def alice_claims_def)
  have b: "verify_route ''PK'' demo_db 300 (Some (Bearer resource_token)) =
     \<lparr>status = 200, error = None, message = None\<rparr>"
    by (simp add: verify_route_def jwt_verify_def resource_token_def alice_claims_def
        demo_db_def)
  have f: "status (fst (logout_route ''PK'' demo_db 200 (Some (Bearer resource_token)))) = 200"
    by (subst l) simp
  from revocation_checks [OF l s, of 300] v b f show ?thesis
    by simp
qed

lemma gate_grants_only_with_tokens:
  assumes "verifyDualAuth cache r now req = Inr a"
  shows "\<exists>t1 t2 pk. req = dual_request t1 t2 \<and> present (getAuthPublicKey cache now) = Some pk"
proof -
  from assms obtain t1 where t1: "authorization req = Some (Bearer t1)"
    by (auto simp: verifyDualAuth_def split: option.splits auth_header.splits)
  from assms t1 obtain t2 where t2: "x_third_party_token req = Some t2"
    by (auto simp: verifyDualAuth_def split: option.splits)
  from assms t1 t2 obtain pk where "present (getAuthPublicKey cache now) = Some pk"
    by (auto simp: verifyDualAuth_def split: option.splits)
  moreover from t1 t2 have "req = dual_request t1 t2"
    by (simp add: dual_request_def)
  ultimately show ?thesis by blast
qed

text \<open>
  C4.  With the signing key available and both tokens presented, the gate answers
  \<^verbatim>\<open>401 Token mismatch\<close> exactly when both tokens verify, the primary token is not
  blacklisted, and the two tokens differ in subject or in username; no other denial has
  that body.  Whenever the gate lets a request through, the two tokens verify and agree
  on subject and username, and the identity attached to the request is that common one.
\<close>

theorem gate_subject_mismatch:
  "(present (getAuthPublicKey cache now) = Some pk \<longrightarrow>
      (verifyDualAuth cache r now (dual_request t1 t2) =
         Inl \<lparr>status = 401, error = Some ''Token mismatch'',
              message = Some ''Google JWT and third-party JWT must belong to the same user''\<rparr>)
      = (\<exists>g t. verifyJWT t1 pk now = Inr g \<and> \<not> checkTokenBlacklist r (jti g) \<and>
                verifyJWT t2 pk now = Inr t \<and>
                (sub g \<noteq> sub t \<or> username g \<noteq> username t))) \<and>
   (verifyDualAuth cache r now req = Inr a \<longrightarrow>
      (\<exists>t1 t2 pk g t. req = dual_request t1 t2 \<and> present (getAuthPublicKey cache now) = Some pk \<and>
         verifyJWT t1 pk now = Inr g \<and> verifyJWT t2 pk now = Inr t \<and>
         sub g = sub t \<and> username g = username t \<and>
         auth_user_id a = sub g \<and> auth_username a = username g))"
proof (intro conjI impI)
  assume pk: "present (getAuthPublicKey cache now) = Some pk"
  show "(verifyDualAuth cache r now (dual_request t1 t2) =
         Inl \<lparr>status = 401, error = Some ''Token mismatch'',
              message = Some ''Google JWT and third-party JWT must belong to the same user''\<rparr>)
      = (\<exists>g t. verifyJWT t1 pk now = Inr g \<and> \<not> checkTokenBlacklist r (jti g) \<and>
                verifyJWT t2 pk now = Inr t \<and>
                (sub g \<noteq> sub t \<or> username g \<noteq> username t))"
    by (simp add: gate_eval [OF pk] split: sum.splits)
next
  assume a: "verifyDualAuth cache r now req = Inr a"
  from gate_grants_only_with_tokens [OF a] obtain t1 t2 pk where
    req: "req = dual_request t1 t2" and pk: "present (getAuthPublicKey cache now) = Some pk"
    by blast
  from a have "\<exists>g t. verifyJWT t1 pk now = Inr g \<and> verifyJWT t2 pk now = Inr t \<and>
         sub g = sub t \<and> username g = username t \<and>
         auth_user_id a = sub g \<and> auth_username a = username g"
    unfolding req gate_eval [OF pk]
    by (auto split: sum.splits if_splits)
  with req pk show "\<exists>t1 t2 pk g t. req = dual_request t1 t2 \<and> present (getAuthPublicKey cache now) = Some pk \<and>
         verifyJWT t1 pk now = Inr g \<and> verifyJWT t2 pk now = Inr t \<and>
         sub g = sub t \<and> username g = username t \<and>
         auth_user_id a = sub g \<and> auth_username a = username g"
    by blast
qed

theorem gate_subject_mismatch_witness:
  "present (getAuthPublicKey fresh_cache 300) = Some ''PK'' \<and>
   verifyDualAuth fresh_cache RedisError 300 (dual_request resource_token bob_token) =
     Inl \<lparr>status = 401, error = Some ''Token mismatch'',
          message = Some ''Google JWT and third-party JWT must belong to the same user''\<rparr> \<and>
   verifyDualAuth fresh_cache RedisError 300 (dual_request resource_token identity_token) =
     Inr alice_auth \<and>
   auth_user_id alice_auth = ''u1'' \<and> auth_username alice_auth = ''alice''"
proof -
  let ?bob = "\<lparr>jti = ''jti-3'', sub = ''u2'', username = ''bob'',
               email = ''bob@example.org'', iat = 100, exp = 86500\<rparr>"
  have m: "\<exists>g t. verifyJWT resource_token ''PK'' 300 = Inr g \<and>
             \<not> checkTokenBlacklist RedisError (jti g) \<and>
             verifyJWT bob_token ''PK'' 300 = Inr t \<and>
             (sub g \<noteq> sub t \<or> username g \<noteq> username t)"
  proof (intro exI conjI)
    show "verifyJWT resource_token ''PK'' 300 = Inr alice_claims"
      by (rule demo_verify)
    show "verifyJWT bob_token ''PK'' 300 = Inr ?bob"
      by (rule demo_verify)
    show "\<not> checkTokenBlacklist RedisError (jti alice_claims)"
      by (simp add: checkTokenBlacklist_def)
    show "sub alice_claims \<noteq> sub ?bob \<or> username alice_claims \<noteq> username ?bob"
      by (simp add: alice_claims_def)
  qed
  from gate_subject_mismatch
         [of fresh_cache 300 "''PK''" RedisError resource_token bob_token
             "dual_request resource_token identity_token" alice_auth]
       m demo_cache(1) demo_gate_ok
  show ?thesis
    by (auto simp: alice_auth_def)
qed

text \<open>
  C8, as stated, fails: the body returned to the caller names the check that failed.  A
  revoked token, a subject mismatch, a bad signature and an expired token get four
  different answers.
\<close>

theorem gate_denials_differ:
  "verifyDualAuth fresh_cache (redis_with ''jti-1'') 300
     (dual_request resource_token identity_token) =
     Inl \<lparr>status = 401, error = Some ''Token has been revoked'', message = None\<rparr> \<and>
   verifyDualAuth fresh_cache (redis_with ''jti-0'') 300
     (dual_request resource_token bob_token) =
     Inl \<lparr>status = 401, error = Some ''Token mismatch'',
          message = Some ''Google JWT and third-party JWT must belong to the same user''\<rparr> \<and>
   verifyDualAuth fresh_cache (redis_with ''jti-0'') 300
     (dual_request (Signed alice_claims ''OTHER'') identity_token) =
     Inl \<lparr>status = 401, error = Some ''Invalid Google JWT token'',
          message = Some ''JWT verification failed: invalid signature''\<rparr> \<and>
   verifyDualAuth fresh_cache (redis_with ''jti-0'') 90000
     (dual_request resource_token identity_token) =
     Inl \<lparr>status = 401, error = Some ''Invalid Google JWT token'',
          message = Some ''JWT verification failed: jwt expired''\<rparr>"
  by (simp add: gate_eval [OF demo_cache(1)] gate_eval [OF demo_cache(2)] demo_verify
      checkTokenBlacklist_def redis_with_def)
     (simp add: verifyJWT_def jwt_verify_def resource_token_def alice_claims_def)

text \<open>
  C8, amended.  With the signing key available and both tokens presented, every denial
  by the gate has status 401, and its body names the check that failed: an invalid or
  expired primary token is answered \<^verbatim>\<open>Invalid Google JWT token\<close> with the verifier's
  message, a blacklisted primary token \<^verbatim>\<open>Token has been revoked\<close>, an invalid or expired
  third-party token \<^verbatim>\<open>Invalid third-party JWT token\<close>, differing subjects or usernames
  \<^verbatim>\<open>Token mismatch\<close>, and a token past its expiry but within the clock tolerance
  \<^verbatim>\<open>Token expired\<close>.
\<close>

theorem gate_denial_names_check:
  assumes "present (getAuthPublicKey cache now) = Some pk"
    and "verifyDualAuth cache r now (dual_request t1 t2) = Inl d"
  shows "status d = 401 \<and>
         error d \<in> {Some ''Invalid Google JWT token'', Some ''Token has been revoked'',
                    Some ''Invalid third-party JWT token'', Some ''Token mismatch'',
                    Some ''Token expired''} \<and>
         (error d = Some ''Invalid Google JWT token'') =
           (\<exists>m. verifyJWT t1 pk now = Inl m \<and> message d = Some m) \<and>
         (error d = Some ''Token has been revoked'') =
           (\<exists>g. verifyJWT t1 pk now = Inr g \<and> checkTokenBlacklist r (jti g)) \<and>
         (error d = Some ''Invalid third-party JWT token'') =
           (\<exists>g m. verifyJWT t1 pk now = Inr g \<and> \<not> checkTokenBlacklist r (jti g) \<and>
                   verifyJWT t2 pk now = Inl m \<and> message d = Some m) \<and>
         (error d = Some ''Token mismatch'') =
           (\<exists>g t. verifyJWT t1 pk now = Inr g \<and> \<not> checkTokenBlacklist r (jti g) \<and>
                   verifyJWT t2 pk now = Inr t \<and>
                   (sub g \<noteq> sub t \<or> username g \<noteq> username t))"
  using assms(2) unfolding gate_eval [OF assms(1)]
  by (auto split: sum.splits if_splits)

theorem gate_denial_names_check_witness:
  "present (getAuthPublicKey fresh_cache 300) = Some ''PK'' \<and>
   verifyDualAuth fresh_cache (redis_with ''jti-1'') 300
     (dual_request resource_token identity_token) =
     Inl \<lparr>status = 401, error = Some ''Token has been revoked'', message = None\<rparr> \<and>
   (\<exists>g. verifyJWT resource_token ''PK'' 300 = Inr g \<and>
        checkTokenBlacklist (redis_with ''jti-1'') (jti g))"
proof -
  have d: "verifyDualAuth fresh_cache (redis_with ''jti-1'') 300
     (dual_request resource_token identity_token) =
     Inl \<lparr>status = 401, error = Some ''Token has been revoked'', message = None\<rparr>"
    by (simp add: gate_eval [OF demo_cache(1)] demo_verify checkTokenBlacklist_def
        redis_with_def)
       (simp add: alice_claims_def)
  from gate_denial_names_check [OF demo_cache(1) d] d demo_cache(1) show ?thesis
    by simp
qed



section \<open>Properties of the public key cache\<close>

lemma gate_without_key:
  assumes "present (getAuthPublicKey cache now) = None"
  shows "\<exists>d. verifyDualAuth cache r now req = Inl d"
    and "verifyDualAuth cache r now (dual_request t1 t2) =
           Inl \<lparr>status = 503, error = Some ''Authentication service unavailable'',
                message = None\<rparr>"
  using assms
  by (simp_all add: verifyDualAuth_def dual_request_def
      split: option.splits auth_header.splits)

lemma cache_get_later:
  assumes "now \<le> settled" and "present (cache_get cache now) = None"
  shows "present (cache_get cache settled) = None"
  using assms
  by (auto simp: present_def cache_get_def split: option.splits if_splits)

lemma fetch_failure_throws:
  assumes "now \<le> settled"
    and "present (cache_get cache now) = None"
    and "fetched_key reply = Inl m"
  shows "fetchAuthPublicKey cache now reply settled = (Inl m, cache)"
  using assms(2,3) cache_get_later [OF assms(1,2)]
  by (simp add: fetchAuthPublicKey_def)

text \<open>
  C9.  The key fetched at time 0 is served until it expires at time 300.  A call of
  \<open>fetchAuthPublicKey\<close> entered at time 301 finds no key in the cache and sends the
  request; the request times out at 306; the \<^verbatim>\<open>catch\<close> block asks the same cache again,
  gets nothing, and rethrows.  The key that was cached before is not returned, and the
  gate answers \<^verbatim>\<open>503 Authentication service unavailable\<close>.  With a cache that never held
  a key the fetch fails and the gate answers in the same way.
\<close>

theorem stale_key_not_served:
  "present (getAuthPublicKey stale_cache 300) = Some ''PK'' \<and>
   present (getAuthPublicKey stale_cache 301) = None \<and>
   fetchAuthPublicKey stale_cache 301 (NetworkError ''timeout of 5000ms exceeded'') 306 =
     (Inl ''timeout of 5000ms exceeded'', stale_cache) \<and>
   verifyDualAuth stale_cache RedisError 306 (dual_request resource_token identity_token) =
     Inl \<lparr>status = 503, error = Some ''Authentication service unavailable'',
          message = None\<rparr> \<and>
   fetchAuthPublicKey None 301 (NetworkError ''timeout of 5000ms exceeded'') 306 =
     (Inl ''timeout of 5000ms exceeded'', None) \<and>
   verifyDualAuth None RedisError 306 (dual_request resource_token identity_token) =
     Inl \<lparr>status = 503, error = Some ''Authentication service unavailable'',
          message = None\<rparr>"
proof -
  have live: "present (getAuthPublicKey stale_cache 300) = Some ''PK''"
    by (simp add: present_def getAuthPublicKey_def cache_get_def cache_set_def
        stale_cache_def stdTTL_def truthy_def)
  have gone: "present (getAuthPublicKey stale_cache t) = None" if "300 < t" for t
    using that
    by (simp add: present_def getAuthPublicKey_def cache_get_def cache_set_def
        stale_cache_def stdTTL_def)
  have empty: "present (getAuthPublicKey None t) = None" for t
    by (simp add: present_def getAuthPublicKey_def cache_get_def)
  have f: "fetched_key (NetworkError ''timeout of 5000ms exceeded'') =
             Inl ''timeout of 5000ms exceeded''"
    by (simp add: fetched_key_def)
  have "fetchAuthPublicKey stale_cache 301 (NetworkError ''timeout of 5000ms exceeded'') 306
          = (Inl ''timeout of 5000ms exceeded'', stale_cache)"
    using gone [of 301] by (intro fetch_failure_throws f) (simp_all add: getAuthPublicKey_def)
  moreover
  have "fetchAuthPublicKey None 301 (NetworkError ''timeout of 5000ms exceeded'') 306
          = (Inl ''timeout of 5000ms exceeded'', None)"
    using empty [of 301] by (intro fetch_failure_throws f) (simp_all add: getAuthPublicKey_def)
  moreover note live gone [of 301] gate_without_key(2) [OF gone [of 306]]
    gate_without_key(2) [OF empty [of 306]]
  ultimately show ?thesis
    by simp
qed

theorem stale_key_not_served_witness:
  "present (cache_get stale_cache 300) = Some ''PK'' \<and>
   fst (fetchAuthPublicKey stale_cache 301 (NetworkError ''timeout of 5000ms exceeded'') 306)
     = Inl ''timeout of 5000ms exceeded'' \<and>
   status (case verifyDualAuth stale_cache RedisError 306
                  (dual_request resource_token identity_token) of
             Inl d \<Rightarrow> d
           | Inr a \<Rightarrow> \<lparr>status = 200, error = None, message = None\<rparr>) = 503"
  using stale_key_not_served by (simp add: getAuthPublicKey_def)

end
